theory Spec2Isabelle
  imports Complex_Main "HOL-Library.AList" "HOL-Library.Char_ord" "HOL-Library.List_Lexorder"
begin

section \<open>Python values used by whisperGUI.py\<close>

text \<open>
  A Python \<open>str\<close> is an Isabelle \<open>string\<close>: each \<open>char\<close> stands for the code point of
  the same number, so the model covers the strings over code points below 256. The order
  on strings (\<open>Char_ord\<close>, \<open>List_Lexorder\<close>) is the lexicographic order by code point,
  which is the order \<open>sorted\<close> uses on \<open>str\<close>.

  A Python \<open>dict\<close> of \<open>str\<close> to \<open>str\<close> is an association list in insertion order:
  \<open>d[k] = v\<close> overwrites in place or appends, \<open>del d[k]\<close> removes the entry or raises
  \<open>KeyError\<close>.
\<close>

type_synonym dict = "(string \<times> string) list"

datatype py_error = KeyError string | NonExistentPromptProfileName string

definition is_space :: "char \<Rightarrow> bool" where
  \<comment> \<open>\<open>str.isspace\<close> on one character, for the code points below 256\<close>
  "is_space c \<longleftrightarrow> (of_char c :: nat) \<in> {9, 10, 11, 12, 13, 28, 29, 30, 31, 32, 133, 160}"

definition strip :: "string \<Rightarrow> string" where
  \<comment> \<open>\<open>str.strip()\<close>: leading and trailing whitespace removed\<close>
  "strip s = rev (dropWhile is_space (rev (dropWhile is_space s)))"

definition dict_keys :: "dict \<Rightarrow> string list" where
  "dict_keys d = map fst d"

definition dict_setitem :: "string \<Rightarrow> string \<Rightarrow> dict \<Rightarrow> dict" where
  \<comment> \<open>\<open>d[k] = v\<close>\<close>
  "dict_setitem k v d = AList.update k v d"

definition dict_delitem :: "string \<Rightarrow> dict \<Rightarrow> py_error + dict" where
  \<comment> \<open>\<open>del d[k]\<close>\<close>
  "dict_delitem k d =
     (if k \<in> set (dict_keys d) then Inr (AList.delete k d) else Inl (KeyError k))"

fun max_key_len :: "string \<Rightarrow> string list \<Rightarrow> string" where
  "max_key_len best [] = best"
| "max_key_len best (x # xs) = max_key_len (if length best < length x then x else best) xs"

definition py_max_len :: "string list \<Rightarrow> string" where
  \<comment> \<open>\<open>max(xs, key=len)\<close>, the first longest element. Python raises \<open>ValueError\<close> on an
      empty list; the one call site passes \<open>prompt_profile_names\<close>, which always holds the
      unsaved profile name (lemma \<open>prompt_profile_names_nonempty\<close> below).\<close>
  "py_max_len xs = max_key_len (hd xs) (tl xs)"

section \<open>The settings store and the dropdown (PySimpleGUI)\<close>

text \<open>
  The manager keeps its profiles in a \<open>dict\<close> object that it shares with PySimpleGUI's
  user settings: the getter of \<open>saved_prompt_profiles\<close> re-reads the settings entry on
  every access and the methods mutate the object it returns in place. Objects are
  therefore kept in an explicit store, addressed by references.

  \<^item> \<open>user_settings\<close> is the settings dictionary in memory: \<open>user_settings_get_entry\<close>
    returns the object stored under a key (or the default), \<open>user_settings_set_entry\<close>
    binds the key to the object it is given;
  \<^item> \<open>settings_file\<close> is what has been written to the settings file: the value the
    object had when \<open>user_settings_set_entry\<close> saved it.
\<close>

type_synonym ref = nat

record combo =
  combo_value :: string
  combo_values :: "string list"
  combo_width :: nat

record window =
  element :: combo
  written_events :: "(string \<times> string) list"

record prompt_manager =
  objects :: "ref \<Rightarrow> dict"
  user_settings :: "string \<rightharpoonup> ref"
  settings_file :: "string \<rightharpoonup> dict"
  saved_prompts_settings_key :: string
  saved_prompt_profiles_field :: ref
  dropdown_window :: "window option"
  dropdown_key :: "string option"

definition user_settings_get_entry :: "string \<Rightarrow> ref \<Rightarrow> prompt_manager \<Rightarrow> ref" where
  "user_settings_get_entry key dflt s =
     (case user_settings s key of Some r \<Rightarrow> r | None \<Rightarrow> dflt)"

definition user_settings_set_entry :: "string \<Rightarrow> ref \<Rightarrow> prompt_manager \<Rightarrow> prompt_manager" where
  "user_settings_set_entry key r s =
     s\<lparr>user_settings := (user_settings s)(key \<mapsto> r),
       settings_file := (settings_file s)(key \<mapsto> objects s r)\<rparr>"

definition combo_get :: "combo \<Rightarrow> string" where
  \<comment> \<open>\<open>Combo.get()\<close>: the current selection\<close>
  "combo_get c = combo_value c"

definition combo_update :: "string \<Rightarrow> string list \<Rightarrow> nat \<Rightarrow> combo \<Rightarrow> combo" where
  \<comment> \<open>\<open>Combo.update(value=v, values=vs, size=(w, None))\<close>\<close>
  "combo_update v vs w c = c\<lparr>combo_value := v, combo_values := vs, combo_width := w\<rparr>"

definition write_event_value :: "string \<Rightarrow> string \<Rightarrow> window \<Rightarrow> window" where
  \<comment> \<open>\<open>Window.write_event_value(key, value)\<close>: the event is queued for the event loop\<close>
  "write_event_value key v w = w\<lparr>written_events := written_events w @ [(key, v)]\<rparr>"

section \<open>PromptManager\<close>

definition unsaved_prompt_profile_name :: string where
  "unsaved_prompt_profile_name = ''(None)''"

definition saved_prompt_profiles :: "prompt_manager \<Rightarrow> ref \<times> prompt_manager" where
  \<comment> \<open>the property getter: re-reads the settings entry, keeps it in the field, returns it\<close>
  "saved_prompt_profiles s =
     (let r = user_settings_get_entry (saved_prompts_settings_key s)
                (saved_prompt_profiles_field s) s
      in (r, s\<lparr>saved_prompt_profiles_field := r\<rparr>))"

definition prompt_profile_names :: "prompt_manager \<Rightarrow> string list \<times> prompt_manager" where
  "prompt_profile_names s =
     (let (r, s1) = saved_prompt_profiles s
      in (unsaved_prompt_profile_name # sort (dict_keys (objects s1 r)), s1))"

definition saved_prompt_profile_names :: "prompt_manager \<Rightarrow> string list \<times> prompt_manager" where
  "saved_prompt_profile_names s =
     (let (r, s1) = saved_prompt_profiles s in (sort (dict_keys (objects s1 r)), s1))"

definition save_profiles_to_settings :: "prompt_manager \<Rightarrow> prompt_manager" where
  "save_profiles_to_settings s =
     (let (r, s1) = saved_prompt_profiles s
      in user_settings_set_entry (saved_prompts_settings_key s1) r s1)"

definition dropdown :: "prompt_manager \<Rightarrow> combo option" where
  \<comment> \<open>the property \<open>_dropdown\<close>: the element of the bound window under the bound key\<close>
  "dropdown s =
     (case (dropdown_window s, dropdown_key s) of
        (Some w, Some k) \<Rightarrow> Some (element w)
      | _ \<Rightarrow> None)"

definition set_prompt_profile_dropdown :: "window \<Rightarrow> string \<Rightarrow> prompt_manager \<Rightarrow> prompt_manager" where
  "set_prompt_profile_dropdown w key s = s\<lparr>dropdown_window := Some w, dropdown_key := Some key\<rparr>"

definition update_prompt_profile_dropdown :: "string option \<Rightarrow> prompt_manager \<Rightarrow> prompt_manager" where
  \<comment> \<open>\<open>_update_prompt_profile_dropdown\<close>; the default argument \<open>...\<close> is \<open>None\<close>\<close>
  "update_prompt_profile_dropdown new_selected_profile s =
     (case (dropdown_window s, dropdown_key s) of
        (Some w, Some k) \<Rightarrow>
          (let selected_profile =
                 (case new_selected_profile of
                    None \<Rightarrow> combo_get (element w)
                  | Some n \<Rightarrow> n);
               (names, s1) = prompt_profile_names s;
               new_dropdown_width = length (py_max_len names);
               (values, s2) = prompt_profile_names s1;
               w1 = w\<lparr>element := combo_update selected_profile values new_dropdown_width (element w)\<rparr>;
               w2 = (case new_selected_profile of
                       None \<Rightarrow> w1
                     | Some n \<Rightarrow> write_event_value k n w1)
           in s2\<lparr>dropdown_window := Some w2\<rparr>)
      | _ \<Rightarrow> s)"

definition save_profile :: "string \<Rightarrow> string \<Rightarrow> string option \<Rightarrow> prompt_manager \<Rightarrow> prompt_manager" where
  \<comment> \<open>\<open>_save_profile\<close>\<close>
  "save_profile profile_name profile_prompt original_profile_name s =
     (let s1 = (case original_profile_name of
                  None \<Rightarrow> s
                | Some orig \<Rightarrow>
                    (let (r, s') = saved_prompt_profiles s
                     in case dict_delitem orig (objects s' r) of
                          Inl e \<Rightarrow> s'
                        | Inr d \<Rightarrow> s'\<lparr>objects := (objects s')(r := d)\<rparr>));
          (r, s2) = saved_prompt_profiles s1;
          s3 = s2\<lparr>objects := (objects s2)(r := dict_setitem profile_name profile_prompt (objects s2 r))\<rparr>;
          s4 = save_profiles_to_settings s3
      in case dropdown s4 of
           None \<Rightarrow> s4
         | Some dd \<Rightarrow>
             (let selected_dropdown_profile_name = combo_get dd
              in if original_profile_name = Some selected_dropdown_profile_name
                 then update_prompt_profile_dropdown (Some profile_name) s4
                 else update_prompt_profile_dropdown None s4))"

definition name_empty_msg :: string where
  "name_empty_msg = ''Invalid prompt name: name can't be empty or whitespace only.'' @
     [CHR 0x0A, CHR 0x0A] @ ''Please enter a new prompt name.''"

definition name_in_use_msg :: string where
  "name_in_use_msg = ''Invalid prompt name: name already in use.'' @
     [CHR 0x0A, CHR 0x0A] @ ''Please enter a new prompt name.''"

definition add_prompt_profile ::
  "string \<Rightarrow> string \<Rightarrow> prompt_manager \<Rightarrow> (bool \<times> string) \<times> prompt_manager" where
  "add_prompt_profile profile_name profile_prompt s =
     (if strip profile_name = [] then ((False, name_empty_msg), s)
      else
        (let (names, s1) = prompt_profile_names s
         in if profile_name \<in> set names then ((False, name_in_use_msg), s1)
            else ((True, []), save_profile profile_name profile_prompt None s1)))"

definition edit_prompt_profile ::
  "string \<Rightarrow> string \<Rightarrow> string \<Rightarrow> prompt_manager \<Rightarrow> (bool \<times> string) \<times> prompt_manager" where
  "edit_prompt_profile profile_name profile_prompt original_profile_name s =
     (let profile_name_changed = (profile_name \<noteq> original_profile_name)
      in if strip profile_name = [] then ((False, name_empty_msg), s)
         else
           (let (names, s1) = prompt_profile_names s
            in if profile_name \<in> set names \<and> profile_name_changed
               then ((False, name_in_use_msg), s1)
               else ((True, []),
                     save_profile profile_name profile_prompt (Some original_profile_name) s1)))"

definition delete_prompt_profile ::
  "string \<Rightarrow> prompt_manager \<Rightarrow> (py_error + unit) \<times> prompt_manager" where
  \<comment> \<open>\<open>Inl e\<close>: the call raised \<open>e\<close>; the state is the one the exception leaves behind\<close>
  "delete_prompt_profile profile_name s =
     (let (r, s1) = saved_prompt_profiles s
      in case dict_delitem profile_name (objects s1 r) of
           Inl e \<Rightarrow> (Inl e, s1)
         | Inr d \<Rightarrow>
             (let s2 = s1\<lparr>objects := (objects s1)(r := d)\<rparr>;
                  s3 = save_profiles_to_settings s2
              in (Inr (),
                  (case dropdown s3 of
                     None \<Rightarrow> s3
                   | Some dd \<Rightarrow>
                       (let selected_prompt_profile_name = combo_get dd
                        in if profile_name = selected_prompt_profile_name
                           then update_prompt_profile_dropdown (Some unsaved_prompt_profile_name) s3
                           else update_prompt_profile_dropdown None s3)))))"

definition PromptManager_init ::
  "string \<Rightarrow> ref \<Rightarrow> (ref \<Rightarrow> dict) \<Rightarrow> (string \<rightharpoonup> ref) \<Rightarrow> (string \<rightharpoonup> dict) \<Rightarrow> prompt_manager" where
  \<comment> \<open>\<open>__init__\<close>, given the object store, the settings in memory and the settings file;
      \<open>fresh\<close> is the address of the new empty dict \<open>{}\<close> passed as the default\<close>
  "PromptManager_init key fresh objs settings file =
     (let s = \<lparr>objects = objs(fresh := []), user_settings = settings, settings_file = file,
                saved_prompts_settings_key = key, saved_prompt_profiles_field = fresh,
                dropdown_window = None, dropdown_key = None\<rparr>
      in s\<lparr>saved_prompt_profiles_field := user_settings_get_entry key fresh s\<rparr>)"

definition SAVED_PROMPTS_SETTINGS :: string where
  "SAVED_PROMPTS_SETTINGS = ''SAVED PROMPTS''"

definition PROMPT_PROFILE_DROPDOWN :: string where
  "PROMPT_PROFILE_DROPDOWN = ''-PROMPT-PROFILE-''"

definition new_manager :: prompt_manager where
  \<comment> \<open>\<open>PromptManager(Keys.SAVED_PROMPTS_SETTINGS)\<close> on a first run: no settings saved yet\<close>
  "new_manager = PromptManager_init SAVED_PROMPTS_SETTINGS 0 (\<lambda>r. []) Map.empty Map.empty"

definition main_window :: window where
  \<comment> \<open>a main window whose profile dropdown shows the unsaved profile only\<close>
  "main_window =
     \<lparr>element = \<lparr>combo_value = unsaved_prompt_profile_name,
                  combo_values = [unsaved_prompt_profile_name], combo_width = 6\<rparr>,
      written_events = []\<rparr>"

section \<open>What the manager stores\<close>

definition current_ref :: "prompt_manager \<Rightarrow> ref" where
  \<comment> \<open>the object the getter of \<open>saved_prompt_profiles\<close> returns\<close>
  "current_ref s =
     user_settings_get_entry (saved_prompts_settings_key s) (saved_prompt_profiles_field s) s"

definition profiles :: "prompt_manager \<Rightarrow> dict" where
  \<comment> \<open>the stored profile mapping: the value of \<open>self.saved_prompt_profiles\<close>\<close>
  "profiles s = objects s (current_ref s)"

definition persisted :: "prompt_manager \<Rightarrow> dict option" where
  \<comment> \<open>the profile mapping in the settings file\<close>
  "persisted s = settings_file s (saved_prompts_settings_key s)"

definition refreshed :: "string list \<Rightarrow> string \<Rightarrow> window \<Rightarrow> window" where
  \<comment> \<open>the window after the option list \<open>names\<close> and the selection \<open>sel\<close> were pushed to
      its dropdown\<close>
  "refreshed names sel w =
     w\<lparr>element := combo_update sel names (length (py_max_len names)) (element w)\<rparr>"

definition bound_manager :: prompt_manager where
  \<comment> \<open>the manager of a first run after \<open>make_tracked_main_window_with_synced_profiles\<close>\<close>
  "bound_manager = set_prompt_profile_dropdown main_window PROMPT_PROFILE_DROPDOWN new_manager"

definition choose_option :: "string \<Rightarrow> prompt_manager \<Rightarrow> prompt_manager" where
  \<comment> \<open>the user picks the option \<open>v\<close> in the bound dropdown\<close>
  "choose_option v s =
     s\<lparr>dropdown_window :=
         map_option (\<lambda>w. w\<lparr>element := (element w)\<lparr>combo_value := v\<rparr>\<rparr>) (dropdown_window s)\<rparr>"

section \<open>Sequences of operations\<close>

datatype operation =
  Add string string
| Edit string string string
| Delete string

fun apply_operation :: "operation \<Rightarrow> prompt_manager \<Rightarrow> prompt_manager" where
  \<comment> \<open>the state a call leaves behind, whether it returned or raised\<close>
  "apply_operation (Add name prompt) s = snd (add_prompt_profile name prompt s)"
| "apply_operation (Edit name prompt original_name) s =
     snd (edit_prompt_profile name prompt original_name s)"
| "apply_operation (Delete name) s = snd (delete_prompt_profile name s)"

definition run :: "operation list \<Rightarrow> prompt_manager \<Rightarrow> prompt_manager" where
  "run ops s = fold apply_operation ops s"

definition edits_unsaved_profile :: "operation \<Rightarrow> bool" where
  \<comment> \<open>an edit that keeps the name of the unsaved profile as the profile's name\<close>
  "edits_unsaved_profile op \<longleftrightarrow>
     (case op of
        Edit name prompt original_name \<Rightarrow>
          name = unsaved_prompt_profile_name \<and> original_name = unsaved_prompt_profile_name
      | _ \<Rightarrow> False)"

definition store_ok :: "prompt_manager \<Rightarrow> bool" where
  \<comment> \<open>the keys of the stored dict are distinct, as in every Python dict, and the unsaved
      profile name is not among them\<close>
  "store_ok s \<longleftrightarrow>
     distinct (dict_keys (profiles s)) \<and>
     unsaved_prompt_profile_name \<notin> set (dict_keys (profiles s))"

section \<open>The transcription job\<close>

text \<open>
  The class \<open>Transcriber\<close> is imported from \<open>transcriber.py\<close>, which is not among the
  sources: whisperGUI.py only calls it. The job below follows the specification of the
  Transcription Job Controller; \<open>completed_count\<close> and \<open>total_count\<close> are the attributes
  \<open>num_tasks_done\<close> and \<open>num_tasks\<close> that the event loop reads. The clock is an input:
  each call that reads it takes the time of the call, in seconds.
\<close>

datatype job_state = Idle | Running | Stopping | Done

record job =
  files :: "string list"
  state :: job_state
  completed_count :: nat
  total_count :: nat
  current_file :: "string option"
  started_at :: real
  worker_held :: bool

definition idle_job :: job where
  \<comment> \<open>Modelled from the spec: the job of a new \<open>Transcriber\<close> (\<open>Idle\<close> is the initial
      state), whose constructor is in transcriber.py.\<close>
  "idle_job = \<lparr>files = [], state = Idle, completed_count = 0, total_count = 0,
                current_file = None, started_at = 0, worker_held = False\<rparr>"

definition start :: "string list \<Rightarrow> real \<Rightarrow> job \<Rightarrow> job" where
  \<comment> \<open>Modelled from the spec: \<open>Transcriber.start\<close> of transcriber.py. It spawns the worker
      and sets \<open>total_count = len(files)\<close>, \<open>completed_count = 0\<close>, \<open>state = Running\<close>; the
      caller checks that no job is running.\<close>
  "start fs now j =
     j\<lparr>files := fs, state := Running, completed_count := 0, total_count := length fs,
       current_file := None, started_at := now, worker_held := True\<rparr>"

definition stop :: "job \<Rightarrow> job" where
  \<comment> \<open>Modelled from the spec: \<open>Transcriber.stop\<close> of transcriber.py. If the job is running
      it signals the worker and moves to \<open>Stopping\<close>; otherwise it does nothing.\<close>
  "stop j = (if state j = Running then j\<lparr>state := Stopping\<rparr> else j)"

definition finish :: "bool \<Rightarrow> real \<Rightarrow> job \<Rightarrow> real option \<times> job" where
  \<comment> \<open>Modelled from the spec: \<open>Transcriber.done\<close> of transcriber.py (\<open>finish\<close> in the
      specification). It releases the worker, moves to \<open>Done\<close> and returns the time since
      \<open>start\<close>; a call on a job that is not in progress is guarded: no time, no change.\<close>
  "finish success now j =
     (if state j = Running \<or> state j = Stopping
      then (Some (now - started_at j), j\<lparr>state := Done, worker_held := False\<rparr>)
      else (None, j))"

definition on_TRANSCRIBE_PROGRESS :: "job \<Rightarrow> job" where
  \<comment> \<open>the event loop on a progress notification: \<open>transcriber.num_tasks_done += 1\<close>\<close>
  "on_TRANSCRIBE_PROGRESS j = j\<lparr>completed_count := completed_count j + 1\<rparr>"

definition on_TRANSCRIBE_SUCCESS :: "real \<Rightarrow> job \<Rightarrow> real option \<times> job" where
  \<comment> \<open>the event loop on the final success notification: \<open>transcriber.done(success=True)\<close>
      under \<open>popup_on_error(TimerError, suppress_error=True)\<close>; \<open>None\<close> is the time the
      handler then reports as \<open>TIMER_ERROR\<close>\<close>
  "on_TRANSCRIBE_SUCCESS now j = finish True now j"

definition progress :: "nat \<Rightarrow> job \<Rightarrow> job" where
  \<comment> \<open>\<open>k\<close> progress notifications, handled one after the other\<close>
  "progress k j = (on_TRANSCRIBE_PROGRESS ^^ k) j"

section \<open>The modal windows\<close>

text \<open>
  The class \<open>ModalWindowManager\<close> is imported from \<open>ext_PySimpleGUI.py\<close>, which is not
  among the sources: whisperGUI.py calls \<open>track_modal_window\<close> and \<open>update\<close>. The manager
  below follows the specification of the Modal Stack Manager. Windows are identified by
  numbers; a window is open until it is closed.
\<close>

type_synonym window_id = nat

record modal_stack =
  tracked :: "window_id list"
  closed_windows :: "window_id set"
  modal_windows :: "window_id set"

definition no_windows :: modal_stack where
  \<comment> \<open>Modelled from the spec: a new \<open>ModalWindowManager\<close> of ext_PySimpleGUI.py, with
      nothing tracked and no window modal.\<close>
  "no_windows = \<lparr>tracked = [], closed_windows = {}, modal_windows = {}\<rparr>"

definition track :: "window_id \<Rightarrow> modal_stack \<Rightarrow> modal_stack" where
  \<comment> \<open>Modelled from the spec: \<open>ModalWindowManager.track_modal_window\<close> of
      ext_PySimpleGUI.py. It registers the window as a candidate for modal focus.\<close>
  "track w s = s\<lparr>tracked := tracked s @ [w]\<rparr>"

definition close_window :: "window_id \<Rightarrow> modal_stack \<Rightarrow> modal_stack" where
  \<comment> \<open>Modelled from the spec: the closing of a window (\<open>Window.close\<close>), whose code is
      not among the sources. It sets the closed flag of the window.\<close>
  "close_window w s = s\<lparr>closed_windows := insert w (closed_windows s)\<rparr>"

definition still_open :: "modal_stack \<Rightarrow> window_id list" where
  \<comment> \<open>the tracked windows that are open, oldest first\<close>
  "still_open s = filter (\<lambda>w. w \<notin> closed_windows s) (tracked s)"

definition reconcile :: "modal_stack \<Rightarrow> modal_stack" where
  \<comment> \<open>Modelled from the spec: \<open>ModalWindowManager.update\<close> of ext_PySimpleGUI.py
      (\<open>reconcile\<close> in the specification). It drops the tracked windows that are closed
      and makes the most recently tracked open one modal, and no other.\<close>
  "reconcile s =
     (let live = still_open s
      in s\<lparr>tracked := live, modal_windows := (if live = [] then {} else {last live})\<rparr>)"

datatype window_action = Track window_id | Close window_id | Reconcile

fun act :: "window_action \<Rightarrow> modal_stack \<Rightarrow> modal_stack" where
  "act (Track w) s = track w s"
| "act (Close w) s = close_window w s"
| "act Reconcile s = reconcile s"

definition after :: "window_action list \<Rightarrow> modal_stack" where
  \<comment> \<open>the state after a sequence of actions on a new manager\<close>
  "after as = fold act as no_windows"

definition modal_ok :: "modal_stack \<Rightarrow> bool" where
  \<comment> \<open>at most one window is modal, and none when nothing is tracked\<close>
  "modal_ok s \<longleftrightarrow>
     (\<forall>w1 \<in> modal_windows s. \<forall>w2 \<in> modal_windows s. w1 = w2) \<and>
     (tracked s = [] \<longrightarrow> modal_windows s = {})"

section \<open>The event loop\<close>

text \<open>
  The loop of \<open>start_GUI\<close> reads one event at a time with \<open>sg.read_all_windows\<close>: the
  window it came from (\<open>None\<close> on a timeout) and the event (\<open>None\<close> is \<open>sg.WIN_CLOSED\<close>).
  Its body is a chain of branches, one per kind of event, followed by housekeeping for
  the dropdowns and the transcription and, as the last statement,
  \<open>modal_window_manager.update()\<close>. The first branch takes the closing events: on the main
  window it leaves the loop, on another window it closes that window. A later branch
  reaches the housekeeping, or ends the pass early with \<open>continue\<close>, or raises, as the
  branch of the profile dropdown does with \<open>NonExistentPromptProfileName\<close>. The
  transcriber and the modal windows of the state are the ones modelled above; the local
  variables that hold the prompt windows are left out.
\<close>

type_synonym gui_event = "window_id option \<times> string option"

record app =
  transcriber :: job
  main_window_id :: window_id
  windows :: modal_stack

datatype control = Continue | Fall_through

type_synonym handlers = "window_id option \<Rightarrow> string option \<Rightarrow> app \<Rightarrow> py_error + control \<times> app"

type_synonym housekeeping = "window_id option \<Rightarrow> string option \<Rightarrow> app \<Rightarrow> app"

datatype step = Break app | Next app | Raise py_error | Raise_AttributeError

definition is_closing :: "string option \<Rightarrow> bool" where
  \<comment> \<open>\<open>event in (sg.WIN_CLOSED, "Exit", "Close", "Cancel", "OK")\<close>\<close>
  "is_closing event \<longleftrightarrow>
     event \<in> {None, Some ''Exit'', Some ''Close'', Some ''Cancel'', Some ''OK''}"

definition stop_on_close :: "app \<Rightarrow> app" where
  \<comment> \<open>\<open>if transcriber.transcribe_thread: transcriber.stop()\<close>, before the \<open>break\<close>; the
      thread is set while the job holds its worker\<close>
  "stop_on_close s =
     (if worker_held (transcriber s) then s\<lparr>transcriber := stop (transcriber s)\<rparr> else s)"

definition end_of_body :: "app \<Rightarrow> app" where
  \<comment> \<open>\<open>modal_window_manager.update()\<close>, the last statement of the loop body\<close>
  "end_of_body s = s\<lparr>windows := reconcile (windows s)\<rparr>"

definition loop_pass :: "handlers \<Rightarrow> housekeeping \<Rightarrow> gui_event \<Rightarrow> app \<Rightarrow> step" where
  \<comment> \<open>one pass through the body of the loop. \<open>branches\<close> is the chain of \<open>elif\<close> branches
      after the first one, \<open>tail\<close> the statements between the chain and
      \<open>modal_window_manager.update()\<close>. On a closing event of a window other than the main
      one the first branch calls \<open>window.close()\<close>, which \<open>None\<close> does not have\<close>
  "loop_pass branches tail ev s =
     (case ev of
        (window, event) \<Rightarrow>
          if is_closing event
          then (if window = Some (main_window_id s)
                then Break (stop_on_close s)
                else (case window of
                        None \<Rightarrow> Raise_AttributeError
                      | Some w \<Rightarrow>
                          Next (end_of_body
                            (tail window event (s\<lparr>windows := close_window w (windows s)\<rparr>)))))
          else (case branches window event s of
                  Inl e \<Rightarrow> Raise e
                | Inr (Continue, s') \<Rightarrow> Next s'
                | Inr (Fall_through, s') \<Rightarrow> Next (end_of_body (tail window event s'))))"

definition APPLY_GLOBAL_SCALING :: string where
  "APPLY_GLOBAL_SCALING = ''-SAVE-SCALING-''"

definition MIN_SCALING :: real where
  "MIN_SCALING = 0.5"

definition MAX_SCALING :: real where
  "MAX_SCALING = 3"

definition popup_tracked_scaling_invalid :: "window_id \<Rightarrow> app \<Rightarrow> app" where
  \<comment> \<open>\<open>popup_tracked_scaling_invalid\<close>: it opens the message popup, here the window
      \<open>popup\<close>, and calls \<open>modal_window_manager.track_modal_window\<close> on it\<close>
  "popup_tracked_scaling_invalid popup s = s\<lparr>windows := track popup (windows s)\<rparr>"

definition on_APPLY_GLOBAL_SCALING ::
  "(app \<Rightarrow> app) \<Rightarrow> real option \<Rightarrow> window_id \<Rightarrow> app \<Rightarrow> control \<times> app" where
  \<comment> \<open>the branch of \<open>Keys.APPLY_GLOBAL_SCALING\<close>. \<open>scaling_input\<close> is
      \<open>Decimal(values[Keys.SCALING_INPUT_SETTING])\<close>, \<open>None\<close> when the constructor raises
      \<open>decimal.InvalidOperation\<close>; \<open>accepted\<close> is the rest of the branch for an input in
      range (the setting is saved and the windows are remade)\<close>
  "on_APPLY_GLOBAL_SCALING accepted scaling_input popup s =
     (case scaling_input of
        None \<Rightarrow> (Continue, popup_tracked_scaling_invalid popup s)
      | Some x \<Rightarrow>
          if MIN_SCALING \<le> x \<and> x \<le> MAX_SCALING
          then (Fall_through, accepted s)
          else (Continue, popup_tracked_scaling_invalid popup s))"

definition start_GUI_branches ::
  "handlers \<Rightarrow> (app \<Rightarrow> app) \<Rightarrow> real option \<Rightarrow> window_id \<Rightarrow> handlers" where
  \<comment> \<open>the chain of branches with the one of \<open>Keys.APPLY_GLOBAL_SCALING\<close> written out. The
      branches before it compare the event with other keys or, for the custom checkboxes,
      ask for an element with a \<open>checked\<close> attribute, which the Apply button has not;
      \<open>others\<close> are the remaining branches\<close>
  "start_GUI_branches others accepted scaling_input popup window event s =
     (if event = Some APPLY_GLOBAL_SCALING
      then Inr (on_APPLY_GLOBAL_SCALING accepted scaling_input popup s)
      else others window event s)"

definition idle_app :: app where
  \<comment> \<open>an application with main window 0, no job and no modal window\<close>
  "idle_app = \<lparr>transcriber = idle_job, main_window_id = 0, windows = no_windows\<rparr>"

section \<open>Basic facts\<close>

subsection \<open>The getter and the settings store\<close>

lemma getter:
  "saved_prompt_profiles s = (current_ref s, s\<lparr>saved_prompt_profiles_field := current_ref s\<rparr>)"
  by (simp add: saved_prompt_profiles_def current_ref_def Let_def)

lemma current_ref_simps [simp]:
  "current_ref (s\<lparr>saved_prompt_profiles_field := current_ref s\<rparr>) = current_ref s"
  "current_ref (s\<lparr>objects := f\<rparr>) = current_ref s"
  "current_ref (s\<lparr>dropdown_window := w\<rparr>) = current_ref s"
  by (simp_all add: current_ref_def user_settings_get_entry_def split: option.splits)

lemma profiles_sync [simp]:
  "profiles (s\<lparr>saved_prompt_profiles_field := current_ref s\<rparr>) = profiles s"
  by (simp add: profiles_def)

lemma persisted_sync [simp]: "persisted (s\<lparr>saved_prompt_profiles_field := r\<rparr>) = persisted s"
  by (simp add: persisted_def)

lemma names:
  "prompt_profile_names s =
     (unsaved_prompt_profile_name # sort (dict_keys (profiles s)),
      s\<lparr>saved_prompt_profiles_field := current_ref s\<rparr>)"
  by (simp add: prompt_profile_names_def getter profiles_def)

lemma prompt_profile_names_nonempty: "fst (prompt_profile_names s) \<noteq> []"
  by (simp add: names)

lemma names_set:
  "set (fst (prompt_profile_names s)) =
     insert unsaved_prompt_profile_name (set (dict_keys (profiles s)))"
  by (simp add: names)

lemma names_sync [simp]:
  "fst (prompt_profile_names (s\<lparr>saved_prompt_profiles_field := current_ref s\<rparr>)) =
     fst (prompt_profile_names s)"
  by (simp add: names)

lemma save_to_settings:
  "save_profiles_to_settings s =
     s\<lparr>saved_prompt_profiles_field := current_ref s,
       user_settings := (user_settings s)(saved_prompts_settings_key s \<mapsto> current_ref s),
       settings_file := (settings_file s)(saved_prompts_settings_key s \<mapsto> profiles s)\<rparr>"
  by (simp add: save_profiles_to_settings_def getter user_settings_set_entry_def profiles_def)

lemma current_ref_save [simp]: "current_ref (save_profiles_to_settings s) = current_ref s"
  by (simp add: save_to_settings) (simp add: current_ref_def user_settings_get_entry_def)

lemma profiles_save [simp]: "profiles (save_profiles_to_settings s) = profiles s"
  by (simp add: profiles_def) (simp add: save_to_settings)

lemma save_fields [simp]:
  "saved_prompts_settings_key (save_profiles_to_settings s) = saved_prompts_settings_key s"
  "user_settings (save_profiles_to_settings s) =
     (user_settings s)(saved_prompts_settings_key s \<mapsto> current_ref s)"
  "settings_file (save_profiles_to_settings s) =
     (settings_file s)(saved_prompts_settings_key s \<mapsto> profiles s)"
  "objects (save_profiles_to_settings s) = objects s"
  "dropdown_window (save_profiles_to_settings s) = dropdown_window s"
  "dropdown_key (save_profiles_to_settings s) = dropdown_key s"
  by (simp_all add: save_to_settings)

lemma keys_setitem: "set (dict_keys (dict_setitem n p d)) = insert n (set (dict_keys d))"
  using dom_update [of n p d] by (simp add: dict_keys_def dict_setitem_def)

lemma keys_delete: "set (dict_keys (AList.delete n d)) = set (dict_keys d) - {n}"
  by (simp add: dict_keys_def delete_keys)

subsection \<open>The dropdown\<close>

lemma dropdown_bound:
  "dropdown_window s = Some w \<Longrightarrow> dropdown_key s = Some k \<Longrightarrow> dropdown s = Some (element w)"
  by (simp add: dropdown_def)

lemma update_dropdown_bound:
  "dropdown_window s = Some w \<Longrightarrow> dropdown_key s = Some k \<Longrightarrow>
   update_prompt_profile_dropdown x s =
     s\<lparr>saved_prompt_profiles_field := current_ref s,
       dropdown_window :=
         Some (case x of
                 None \<Rightarrow> refreshed (fst (prompt_profile_names s)) (combo_value (element w)) w
               | Some n \<Rightarrow> write_event_value k n (refreshed (fst (prompt_profile_names s)) n w))\<rparr>"
  by (cases x)
     (simp_all add: update_prompt_profile_dropdown_def names refreshed_def combo_get_def Let_def)

lemma update_dropdown_unbound:
  "dropdown s = None \<Longrightarrow> update_prompt_profile_dropdown x s = s"
  by (simp add: update_prompt_profile_dropdown_def dropdown_def split: option.splits)

lemma current_ref_update_dropdown [simp]:
  "current_ref (update_prompt_profile_dropdown x s) = current_ref s"
  by (simp add: update_prompt_profile_dropdown_def names Let_def split: option.splits)

lemma profiles_update_dropdown [simp]:
  "profiles (update_prompt_profile_dropdown x s) = profiles s"
  by (simp add: profiles_def)
     (simp add: update_prompt_profile_dropdown_def names Let_def split: option.splits)

lemma update_dropdown_fields [simp]:
  "saved_prompts_settings_key (update_prompt_profile_dropdown x s) = saved_prompts_settings_key s"
  "user_settings (update_prompt_profile_dropdown x s) = user_settings s"
  "settings_file (update_prompt_profile_dropdown x s) = settings_file s"
  "objects (update_prompt_profile_dropdown x s) = objects s"
  "dropdown_key (update_prompt_profile_dropdown x s) = dropdown_key s"
  by (simp_all add: update_prompt_profile_dropdown_def names Let_def split: option.splits)

subsection \<open>Saving a profile\<close>

lemma del_step:
  "(case dict_delitem orig (objects s r) of
      Inl e \<Rightarrow> s
    | Inr d \<Rightarrow> s\<lparr>objects := (objects s)(r := d)\<rparr>) =
   s\<lparr>objects := (objects s)(r := AList.delete orig (objects s r))\<rparr>"
  by (simp add: dict_delitem_def dict_keys_def)

lemma save_profile_steps:
  "save_profile n p orig s =
     (let s4 = save_profiles_to_settings
                 (s\<lparr>saved_prompt_profiles_field := current_ref s,
                    objects := (objects s)(current_ref s :=
                      dict_setitem n p
                        (case orig of None \<Rightarrow> profiles s | Some orig \<Rightarrow> AList.delete orig (profiles s)))\<rparr>)
      in case dropdown s4 of
           None \<Rightarrow> s4
         | Some dd \<Rightarrow>
             if orig = Some (combo_value dd)
             then update_prompt_profile_dropdown (Some n) s4
             else update_prompt_profile_dropdown None s4)"
proof (cases orig)
  case None
  then show ?thesis
    by (simp add: save_profile_def getter Let_def profiles_def combo_get_def
        cong: option.case_cong if_cong)
next
  case (Some a)
  then show ?thesis
    by (simp add: save_profile_def getter Let_def profiles_def combo_get_def del_step
        cong: option.case_cong if_cong)
qed

lemma profiles_save_profile [simp]:
  "profiles (save_profile n p orig s) =
     dict_setitem n p (case orig of None \<Rightarrow> profiles s | Some orig \<Rightarrow> AList.delete orig (profiles s))"
  by (simp add: save_profile_steps Let_def split: option.splits) (simp add: profiles_def)

lemma save_profile_fields [simp]:
  "saved_prompts_settings_key (save_profile n p orig s) = saved_prompts_settings_key s"
  "dropdown_key (save_profile n p orig s) = dropdown_key s"
  "current_ref (save_profile n p orig s) = current_ref s"
  "user_settings (save_profile n p orig s) =
     (user_settings s)(saved_prompts_settings_key s \<mapsto> current_ref s)"
  by (simp_all add: save_profile_steps Let_def split: option.splits)

lemma persisted_save_profile [simp]:
  "persisted (save_profile n p orig s) = Some (profiles (save_profile n p orig s))"
  unfolding profiles_save_profile
  by (simp add: persisted_def save_profile_steps Let_def split: option.splits) (simp add: profiles_def)

lemma dropdown_save_profile_unbound:
  "dropdown s = None \<Longrightarrow> dropdown_window (save_profile n p orig s) = dropdown_window s"
  by (simp add: save_profile_steps Let_def dropdown_def split: option.splits)

lemma dropdown_save_profile_bound:
  assumes "dropdown_window s = Some w" "dropdown_key s = Some k"
  shows "dropdown_window (save_profile n p orig s) =
     Some (if orig = Some (combo_value (element w))
           then write_event_value k n
                  (refreshed (fst (prompt_profile_names (save_profile n p orig s))) n w)
           else refreshed (fst (prompt_profile_names (save_profile n p orig s)))
                  (combo_value (element w)) w)"
  using assms
  by (simp add: names)
     (simp add: save_profile_steps Let_def dropdown_def update_dropdown_bound names profiles_def)

subsection \<open>The three operations, case by case\<close>

lemma msgs_nonempty [simp]: "name_empty_msg \<noteq> []" "name_in_use_msg \<noteq> []"
  by (simp_all add: name_empty_msg_def name_in_use_msg_def)

lemma add_blank: "strip n = [] \<Longrightarrow> add_prompt_profile n p s = ((False, name_empty_msg), s)"
  by (simp add: add_prompt_profile_def)

lemma add_in_use:
  "strip n \<noteq> [] \<Longrightarrow> n \<in> set (fst (prompt_profile_names s)) \<Longrightarrow>
   add_prompt_profile n p s =
     ((False, name_in_use_msg), s\<lparr>saved_prompt_profiles_field := current_ref s\<rparr>)"
  by (simp add: add_prompt_profile_def names)

lemma add_ok:
  "strip n \<noteq> [] \<Longrightarrow> n \<notin> set (fst (prompt_profile_names s)) \<Longrightarrow>
   add_prompt_profile n p s =
     ((True, []), save_profile n p None (s\<lparr>saved_prompt_profiles_field := current_ref s\<rparr>))"
  by (simp add: add_prompt_profile_def names)

lemma edit_blank:
  "strip n = [] \<Longrightarrow> edit_prompt_profile n p orig s = ((False, name_empty_msg), s)"
  by (simp add: edit_prompt_profile_def)

lemma edit_in_use:
  "strip n \<noteq> [] \<Longrightarrow> n \<in> set (fst (prompt_profile_names s)) \<Longrightarrow> n \<noteq> orig \<Longrightarrow>
   edit_prompt_profile n p orig s =
     ((False, name_in_use_msg), s\<lparr>saved_prompt_profiles_field := current_ref s\<rparr>)"
  by (simp add: edit_prompt_profile_def names)

lemma edit_ok:
  "strip n \<noteq> [] \<Longrightarrow> n \<notin> set (fst (prompt_profile_names s)) \<or> n = orig \<Longrightarrow>
   edit_prompt_profile n p orig s =
     ((True, []),
      save_profile n p (Some orig) (s\<lparr>saved_prompt_profiles_field := current_ref s\<rparr>))"
  by (auto simp add: edit_prompt_profile_def names)

lemma delete_absent:
  "n \<notin> set (dict_keys (profiles s)) \<Longrightarrow>
   delete_prompt_profile n s = (Inl (KeyError n), s\<lparr>saved_prompt_profiles_field := current_ref s\<rparr>)"
  by (simp add: delete_prompt_profile_def getter dict_delitem_def profiles_def)

lemma delete_present:
  "n \<in> set (dict_keys (profiles s)) \<Longrightarrow>
   delete_prompt_profile n s =
     (Inr (),
      (let s3 = save_profiles_to_settings
                  (s\<lparr>saved_prompt_profiles_field := current_ref s,
                     objects := (objects s)(current_ref s := AList.delete n (profiles s))\<rparr>)
       in case dropdown s3 of
            None \<Rightarrow> s3
          | Some dd \<Rightarrow>
              if n = combo_value dd
              then update_prompt_profile_dropdown (Some unsaved_prompt_profile_name) s3
              else update_prompt_profile_dropdown None s3))"
  by (simp add: delete_prompt_profile_def getter dict_delitem_def profiles_def Let_def combo_get_def
      cong: option.case_cong if_cong)

lemma profiles_delete:
  "n \<in> set (dict_keys (profiles s)) \<Longrightarrow>
   profiles (snd (delete_prompt_profile n s)) = AList.delete n (profiles s)"
  by (simp add: delete_present Let_def split: option.splits) (simp add: profiles_def)

lemma persisted_delete:
  "n \<in> set (dict_keys (profiles s)) \<Longrightarrow>
   persisted (snd (delete_prompt_profile n s)) = Some (AList.delete n (profiles s))"
  by (simp add: delete_present Let_def persisted_def split: option.splits) (simp add: profiles_def)

lemma dropdown_delete_bound:
  assumes w: "dropdown_window s = Some w" and k: "dropdown_key s = Some k"
    and n: "n \<in> set (dict_keys (profiles s))"
  shows "dropdown_window (snd (delete_prompt_profile n s)) =
     Some (if n = combo_value (element w)
           then write_event_value k unsaved_prompt_profile_name
                  (refreshed (fst (prompt_profile_names (snd (delete_prompt_profile n s))))
                     unsaved_prompt_profile_name w)
           else refreshed (fst (prompt_profile_names (snd (delete_prompt_profile n s))))
                  (combo_value (element w)) w)"
proof -
  define s3 where "s3 = save_profiles_to_settings
                  (s\<lparr>saved_prompt_profiles_field := current_ref s,
                     objects := (objects s)(current_ref s := AList.delete n (profiles s))\<rparr>)"
  have s3: "dropdown_window s3 = Some w" "dropdown_key s3 = Some k"
    "profiles s3 = AList.delete n (profiles s)"
    using w k by (simp_all add: s3_def) (simp add: profiles_def)
  have nm: "fst (prompt_profile_names s3) = fst (prompt_profile_names (snd (delete_prompt_profile n s)))"
    by (simp add: names s3 profiles_delete [OF n])
  have eq: "snd (delete_prompt_profile n s) =
          (if n = combo_value (element w)
           then update_prompt_profile_dropdown (Some unsaved_prompt_profile_name) s3
           else update_prompt_profile_dropdown None s3)"
    using s3(1,2) by (simp add: delete_present [OF n] s3_def [symmetric] dropdown_def)
  have "dropdown_window (snd (delete_prompt_profile n s)) =
     Some (if n = combo_value (element w)
           then write_event_value k unsaved_prompt_profile_name
                  (refreshed (fst (prompt_profile_names s3)) unsaved_prompt_profile_name w)
           else refreshed (fst (prompt_profile_names s3)) (combo_value (element w)) w)"
    unfolding eq by (simp add: update_dropdown_bound [OF s3(1,2)])
  then show ?thesis
    by (simp only: nm)
qed

subsection \<open>A manager on a first run\<close>

lemma new_manager_fields [simp]:
  "objects new_manager = (\<lambda>r. [])"
  "user_settings new_manager = Map.empty"
  "settings_file new_manager = Map.empty"
  "saved_prompts_settings_key new_manager = SAVED_PROMPTS_SETTINGS"
  "dropdown_window new_manager = None"
  "dropdown_key new_manager = None"
  by (simp_all add: new_manager_def PromptManager_init_def Let_def fun_eq_iff)

lemma new_manager_profiles [simp]: "profiles new_manager = []"
  by (simp add: profiles_def)

lemma strip_examples [simp]:
  "strip [] = []" "strip ''   '' = []" "strip ''A'' = ''A''" "strip '' A '' = ''A''"
  "strip ''B'' = ''B''" "strip ''(None)'' = ''(None)''"
  by (simp_all add: strip_def is_space_def)

lemma bound_manager_fields [simp]:
  "dropdown_window bound_manager = Some main_window"
  "dropdown_key bound_manager = Some PROMPT_PROFILE_DROPDOWN"
  "profiles bound_manager = []"
  by (simp_all add: bound_manager_def set_prompt_profile_dropdown_def profiles_def current_ref_def
      user_settings_get_entry_def)

lemma choose_option_fields [simp]:
  "dropdown_key (choose_option v s) = dropdown_key s"
  "profiles (choose_option v s) = profiles s"
  "dropdown_window s = Some w \<Longrightarrow>
     dropdown_window (choose_option v s) = Some (w\<lparr>element := (element w)\<lparr>combo_value := v\<rparr>\<rparr>)"
  by (simp_all add: choose_option_def profiles_def)

subsection \<open>The listing over sequences of operations\<close>

lemma distinct_keys_setitem:
  "distinct (dict_keys d) \<Longrightarrow> distinct (dict_keys (dict_setitem n p d))"
  by (simp add: dict_keys_def dict_setitem_def distinct_update)

lemma distinct_keys_delete:
  "distinct (dict_keys d) \<Longrightarrow> distinct (dict_keys (AList.delete n d))"
  by (simp add: dict_keys_def distinct_delete)

lemma store_ok_add: "store_ok s \<Longrightarrow> store_ok (snd (add_prompt_profile n p s))"
proof -
  assume ok: "store_ok s"
  consider "strip n = []"
    | "strip n \<noteq> []" "n \<in> set (fst (prompt_profile_names s))"
    | "strip n \<noteq> []" "n \<notin> set (fst (prompt_profile_names s))"
    by blast
  then show ?thesis
  proof cases
    case 1
    then show ?thesis using ok by (simp add: add_blank)
  next
    case 2
    then show ?thesis using ok by (simp add: add_in_use store_ok_def)
  next
    case 3
    then have "n \<noteq> unsaved_prompt_profile_name" by (auto simp: names_set)
    with 3 ok show ?thesis
      by (simp add: add_ok store_ok_def distinct_keys_setitem keys_setitem)
  qed
qed

lemma store_ok_edit:
  assumes ok: "store_ok s"
    and ne: "\<not> (n = unsaved_prompt_profile_name \<and> orig = unsaved_prompt_profile_name)"
  shows "store_ok (snd (edit_prompt_profile n p orig s))"
proof -
  consider "strip n = []"
    | "strip n \<noteq> []" "n \<in> set (fst (prompt_profile_names s))" "n \<noteq> orig"
    | "strip n \<noteq> []" "n \<notin> set (fst (prompt_profile_names s)) \<or> n = orig"
    by blast
  then show ?thesis
  proof cases
    case 1
    then show ?thesis using ok by (simp add: edit_blank)
  next
    case 2
    then show ?thesis using ok by (simp add: edit_in_use store_ok_def)
  next
    case 3
    then have "n \<noteq> unsaved_prompt_profile_name" using ne by (auto simp: names_set)
    with 3 ok show ?thesis
      by (simp add: edit_ok store_ok_def distinct_keys_setitem distinct_keys_delete
          keys_setitem keys_delete)
  qed
qed

lemma store_ok_delete: "store_ok s \<Longrightarrow> store_ok (snd (delete_prompt_profile n s))"
proof (cases "n \<in> set (dict_keys (profiles s))")
  case True
  assume "store_ok s"
  then show ?thesis
    by (simp add: store_ok_def profiles_delete [OF True] distinct_keys_delete keys_delete)
next
  case False
  assume "store_ok s"
  then show ?thesis by (simp add: delete_absent [OF False] store_ok_def)
qed

lemma store_ok_apply:
  "store_ok s \<Longrightarrow> \<not> edits_unsaved_profile op \<Longrightarrow> store_ok (apply_operation op s)"
  by (cases op) (simp_all add: store_ok_add store_ok_edit store_ok_delete edits_unsaved_profile_def)

lemma store_ok_run:
  "store_ok s \<Longrightarrow> list_all (\<lambda>op. \<not> edits_unsaved_profile op) ops \<Longrightarrow> store_ok (run ops s)"
  unfolding run_def
  by (induction ops arbitrary: s) (simp_all add: store_ok_apply)

lemma store_ok_new_manager: "store_ok new_manager"
  by (simp add: store_ok_def dict_keys_def)

lemma listing_of_ok_store:
  "store_ok s \<Longrightarrow>
   distinct (fst (prompt_profile_names s)) \<and>
   sorted (tl (fst (prompt_profile_names s))) \<and>
   hd (fst (prompt_profile_names s)) = unsaved_prompt_profile_name \<and>
   set (tl (fst (prompt_profile_names s))) = set (dict_keys (profiles s))"
  by (simp add: names store_ok_def)

subsection \<open>The transcription job\<close>

lemma progress_fields [simp]:
  "completed_count (progress k j) = completed_count j + k"
  "total_count (progress k j) = total_count j"
  "state (progress k j) = state j"
  "started_at (progress k j) = started_at j"
  "worker_held (progress k j) = worker_held j"
  "files (progress k j) = files j"
  by (induction k) (simp_all add: progress_def on_TRANSCRIBE_PROGRESS_def)

subsection \<open>The modal windows\<close>

lemma modal_ok_act: "modal_ok s \<Longrightarrow> modal_ok (act a s)"
  by (cases a) (auto simp: modal_ok_def track_def close_window_def reconcile_def Let_def)

lemma modal_ok_fold: "modal_ok s \<Longrightarrow> modal_ok (fold act as s)"
  by (induction as arbitrary: s) (simp_all add: modal_ok_act)

lemma modal_ok_after: "modal_ok (after as)"
  unfolding after_def by (rule modal_ok_fold) (simp add: modal_ok_def no_windows_def)

lemma still_open_reconcile [simp]: "still_open (reconcile s) = still_open s"
  by (simp add: reconcile_def still_open_def Let_def)

lemma reconcile_idem: "reconcile (reconcile s) = reconcile s"
  by (simp add: reconcile_def [of "reconcile s"] Let_def) (simp add: reconcile_def Let_def)

lemma reconcile_nothing_tracked:
  "tracked s = [] \<Longrightarrow> modal_windows s = {} \<Longrightarrow> reconcile s = s"
  by (simp add: reconcile_def still_open_def)

lemma close_window_twice: "close_window w (close_window w s) = close_window w s"
  by (simp add: close_window_def)

lemma close_window_closed: "w \<in> closed_windows s \<Longrightarrow> close_window w s = s"
  by (simp add: close_window_def insert_absorb)

lemma modal_manager_properties:
  "let s = after as
   in (\<forall>w1 \<in> modal_windows s. \<forall>w2 \<in> modal_windows s. w1 = w2) \<and>
      tracked (reconcile s) = still_open s \<and>
      set (still_open s) = set (tracked s) - closed_windows s \<and>
      modal_windows (reconcile s) = (if still_open s = [] then {} else {last (still_open s)}) \<and>
      (tracked s = [] \<longrightarrow> reconcile s = s) \<and>
      reconcile (reconcile s) = reconcile s \<and>
      close_window w (close_window w s) = close_window w s \<and>
      (w \<in> closed_windows s \<longrightarrow> close_window w s = s)"
proof -
  have ok: "modal_ok (after as)" by (rule modal_ok_after)
  then have one: "\<forall>w1 \<in> modal_windows (after as). \<forall>w2 \<in> modal_windows (after as). w1 = w2"
    and none: "tracked (after as) = [] \<longrightarrow> modal_windows (after as) = {}"
    by (simp_all add: modal_ok_def)
  have rec: "tracked (reconcile (after as)) = still_open (after as)"
    "modal_windows (reconcile (after as)) =
       (if still_open (after as) = [] then {} else {last (still_open (after as))})"
    by (simp_all add: reconcile_def Let_def)
  have so: "set (still_open (after as)) = set (tracked (after as)) - closed_windows (after as)"
    by (auto simp: still_open_def)
  show ?thesis
    unfolding Let_def
    using one none rec so
    by (simp add: reconcile_idem close_window_twice close_window_closed reconcile_nothing_tracked)
qed

lemma modal_manager_example:
  "modal_windows (after [Track 1, Track 2, Track 3, Close 2, Reconcile]) = {3} \<and>
   modal_windows (after [Track 1, Track 2, Track 3, Close 2, Reconcile, Close 3, Reconcile]) = {1} \<and>
   tracked (after [Track 1, Track 2, Track 3, Close 2, Reconcile, Close 3, Reconcile]) = [1] \<and>
   reconcile (after []) = after [] \<and>
   close_window 2 (after [Track 1, Track 2, Track 3, Close 2]) =
     after [Track 1, Track 2, Track 3, Close 2]"
proof -
  have s1: "after [Track 1, Track 2, Track 3, Close 2] =
      \<lparr>tracked = [1, 2, 3], closed_windows = {2}, modal_windows = {}\<rparr>"
    by (simp add: after_def no_windows_def track_def close_window_def)
  have s2: "after [Track 1, Track 2, Track 3, Close 2, Reconcile, Close 3] =
      \<lparr>tracked = [1, 3], closed_windows = {3, 2}, modal_windows = {3}\<rparr>"
    by (simp add: after_def no_windows_def track_def close_window_def reconcile_def
        still_open_def)
  have s0: "after [] = no_windows"
    by (simp add: after_def)
  have e1: "after [Track 1, Track 2, Track 3, Close 2, Reconcile] =
      reconcile (after [Track 1, Track 2, Track 3, Close 2])"
    and e2: "after [Track 1, Track 2, Track 3, Close 2, Reconcile, Close 3, Reconcile] =
      reconcile (after [Track 1, Track 2, Track 3, Close 2, Reconcile, Close 3])"
    by (simp_all add: after_def)
  note t1 = modal_manager_properties [of "[Track 1, Track 2, Track 3, Close 2]" 2,
      unfolded Let_def s1]
  note t2 = modal_manager_properties [of "[Track 1, Track 2, Track 3, Close 2, Reconcile, Close 3]" 3,
      unfolded Let_def s2]
  note t0 = modal_manager_properties [of "[]" 0, unfolded Let_def s0]
  have a: "modal_windows (after [Track 1, Track 2, Track 3, Close 2, Reconcile]) = {3}"
    unfolding e1 s1 using t1 by (simp add: still_open_def)
  have b: "modal_windows (after [Track 1, Track 2, Track 3, Close 2, Reconcile, Close 3, Reconcile]) = {1} \<and>
     tracked (after [Track 1, Track 2, Track 3, Close 2, Reconcile, Close 3, Reconcile]) = [1]"
    unfolding e2 s2 using t2 by (simp add: still_open_def)
  have c: "reconcile (after []) = after []"
    unfolding s0 using t0 by (simp add: no_windows_def)
  have d: "close_window 2 (after [Track 1, Track 2, Track 3, Close 2]) =
     after [Track 1, Track 2, Track 3, Close 2]"
    unfolding s1 using t1 by simp
  show ?thesis using a b c d by simp
qed

subsection \<open>The event loop\<close>

lemma loop_pass_Break:
  "loop_pass branches tail (window, event) s = Break t \<longleftrightarrow>
     is_closing event \<and> window = Some (main_window_id s) \<and> t = stop_on_close s"
  by (auto simp: loop_pass_def split: sum.splits control.splits option.splits)

lemma loop_pass_close_other_window:
  "is_closing event \<Longrightarrow> w \<noteq> main_window_id s \<Longrightarrow>
   loop_pass branches tail (Some w, event) s =
     Next (end_of_body (tail (Some w) event (s\<lparr>windows := close_window w (windows s)\<rparr>)))"
  by (simp add: loop_pass_def)

lemma loop_pass_end_of_body:
  "\<not> is_closing event \<Longrightarrow> branches window event s = Inr (Fall_through, s') \<Longrightarrow>
   loop_pass branches tail (window, event) s = Next (end_of_body (tail window event s'))"
  by (simp add: loop_pass_def)

lemma loop_pass_continue:
  "\<not> is_closing event \<Longrightarrow> branches window event s = Inr (Continue, s') \<Longrightarrow>
   loop_pass branches tail (window, event) s = Next s'"
  by (simp add: loop_pass_def)

lemma apply_button_is_not_closing: "\<not> is_closing (Some APPLY_GLOBAL_SCALING)"
  by (simp add: is_closing_def APPLY_GLOBAL_SCALING_def)

lemma rejected_scaling_pass:
  "scaling_input = None \<or> (\<exists>x. scaling_input = Some x \<and> (x < MIN_SCALING \<or> MAX_SCALING < x)) \<Longrightarrow>
   loop_pass (start_GUI_branches others accepted scaling_input popup) tail
     (window, Some APPLY_GLOBAL_SCALING) s = Next (popup_tracked_scaling_invalid popup s)"
  by (auto simp: loop_pass_def start_GUI_branches_def on_APPLY_GLOBAL_SCALING_def
      apply_button_is_not_closing)

lemma accepted_scaling_pass:
  "MIN_SCALING \<le> x \<Longrightarrow> x \<le> MAX_SCALING \<Longrightarrow>
   loop_pass (start_GUI_branches others accepted (Some x) popup) tail
     (window, Some APPLY_GLOBAL_SCALING) s =
       Next (end_of_body (tail window (Some APPLY_GLOBAL_SCALING) (accepted s)))"
  by (simp add: loop_pass_def start_GUI_branches_def on_APPLY_GLOBAL_SCALING_def
      apply_button_is_not_closing)

lemma idle_app_fields [simp]:
  "main_window_id idle_app = 0" "windows idle_app = no_windows" "transcriber idle_app = idle_job"
  by (simp_all add: idle_app_def)


section \<open>Claims\<close>

text \<open>
  C1. \<open>add_prompt_profile(name, prompt)\<close> fails, with the success flag \<open>False\<close> and a
  non-empty invalid-name message, exactly when \<open>name\<close> is empty or whitespace only or is in
  the list of profile names, which holds the unsaved profile name and the saved names. On
  a failure nothing stored changes: the profile mapping, every object, the settings in
  memory and on file, and the dropdown. Otherwise the call returns success with an empty
  message, the mapping is the old one with \<open>name\<close> set to \<open>prompt\<close>, and that mapping is in
  the settings file.
\<close>

theorem add_prompt_profile_spec:
  "let r = add_prompt_profile name prompt s; ok = fst (fst r); msg = snd (fst r); s' = snd r
   in (name \<in> set (fst (prompt_profile_names s)) \<longleftrightarrow>
         name = unsaved_prompt_profile_name \<or> name \<in> set (dict_keys (profiles s))) \<and>
      (if strip name = [] \<or> name \<in> set (fst (prompt_profile_names s))
       then \<not> ok \<and> msg \<noteq> [] \<and> msg \<in> {name_empty_msg, name_in_use_msg} \<and>
            profiles s' = profiles s \<and> objects s' = objects s \<and>
            user_settings s' = user_settings s \<and> settings_file s' = settings_file s \<and>
            dropdown_window s' = dropdown_window s
       else ok \<and> msg = [] \<and>
            profiles s' = dict_setitem name prompt (profiles s) \<and>
            map_of (profiles s') = (map_of (profiles s))(name \<mapsto> prompt) \<and>
            persisted s' = Some (profiles s'))"
proof (cases "strip name = []")
  case True
  then show ?thesis by (simp add: add_blank names_set)
next
  case False
  show ?thesis
  proof (cases "name \<in> set (fst (prompt_profile_names s))")
    case True
    with False show ?thesis by (simp add: add_in_use names_set)
  next
    case notin: False
    with False show ?thesis
      by (simp add: add_ok names_set dict_setitem_def update_conv')
  qed
qed

theorem add_prompt_profile_spec_witness:
  "fst (fst (add_prompt_profile ''   '' ''x'' new_manager)) = False \<and>
   snd (fst (add_prompt_profile ''   '' ''x'' new_manager)) \<noteq> [] \<and>
   profiles (snd (add_prompt_profile ''   '' ''x'' new_manager)) = [] \<and>
   fst (fst (add_prompt_profile ''(None)'' ''x'' new_manager)) = False \<and>
   fst (add_prompt_profile ''A'' ''p1'' new_manager) = (True, []) \<and>
   profiles (snd (add_prompt_profile ''A'' ''p1'' new_manager)) = [(''A'', ''p1'')] \<and>
   persisted (snd (add_prompt_profile ''A'' ''p1'' new_manager)) = Some [(''A'', ''p1'')] \<and>
   fst (fst (add_prompt_profile ''A'' ''p2'' (snd (add_prompt_profile ''A'' ''p1'' new_manager)))) = False \<and>
   profiles (snd (add_prompt_profile ''A'' ''p2'' (snd (add_prompt_profile ''A'' ''p1'' new_manager))))
     = [(''A'', ''p1'')]"
proof -
  have blank:
    "fst (fst (add_prompt_profile ''   '' ''x'' new_manager)) = False \<and>
     snd (fst (add_prompt_profile ''   '' ''x'' new_manager)) \<noteq> [] \<and>
     profiles (snd (add_prompt_profile ''   '' ''x'' new_manager)) = []"
    using add_prompt_profile_spec [of "''   ''" "''x''" new_manager]
    by (simp add: Let_def)
  have sentinel: "fst (fst (add_prompt_profile ''(None)'' ''x'' new_manager)) = False"
    using add_prompt_profile_spec [of "''(None)''" "''x''" new_manager]
    by (simp add: Let_def names_set unsaved_prompt_profile_name_def)
  have ok:
    "fst (add_prompt_profile ''A'' ''p1'' new_manager) = (True, []) \<and>
     profiles (snd (add_prompt_profile ''A'' ''p1'' new_manager)) = [(''A'', ''p1'')] \<and>
     persisted (snd (add_prompt_profile ''A'' ''p1'' new_manager)) = Some [(''A'', ''p1'')]"
    using add_prompt_profile_spec [of "''A''" "''p1''" new_manager]
    by (simp add: Let_def names_set dict_keys_def dict_setitem_def
        unsaved_prompt_profile_name_def prod_eq_iff)
  have dup:
    "fst (fst (add_prompt_profile ''A'' ''p2'' (snd (add_prompt_profile ''A'' ''p1'' new_manager)))) = False \<and>
     profiles (snd (add_prompt_profile ''A'' ''p2'' (snd (add_prompt_profile ''A'' ''p1'' new_manager))))
       = [(''A'', ''p1'')]"
    using add_prompt_profile_spec [of "''A''" "''p2''" "snd (add_prompt_profile ''A'' ''p1'' new_manager)"] ok
    by (simp add: Let_def names_set dict_keys_def)
  show ?thesis using blank sentinel ok dup by simp
qed

text \<open>
  C2. \<open>delete_prompt_profile(name)\<close> removes a stored profile (lemmas \<open>delete_present\<close>
  and \<open>profiles_delete\<close>). For a name that is not stored the call does not return: the
  \<open>del\<close> raises \<open>KeyError\<close> (lemma \<open>delete_absent\<close>), which nothing in the method
  suppresses, unlike the \<open>del\<close> of \<open>_save_profile\<close>. Here on the manager of a first run,
  which stores no profile.
\<close>

theorem delete_absent_profile_raises:
  "fst (delete_prompt_profile ''A'' new_manager) = Inl (KeyError ''A'') \<and>
   profiles (snd (delete_prompt_profile ''A'' new_manager)) = [] \<and>
   persisted (snd (delete_prompt_profile ''A'' new_manager)) = None"
  by (simp add: delete_absent dict_keys_def) (simp add: persisted_def)

text \<open>
  C3. \<open>edit_prompt_profile(name, prompt, original_name)\<close> fails with an invalid-name
  message if \<open>name\<close> is empty or whitespace only, or if \<open>name\<close> differs from
  \<open>original_name\<close> and is in the list of profile names; nothing stored changes then.
  Otherwise it succeeds, and in the one call the entry of \<open>original_name\<close> is removed and
  \<open>name\<close> is stored with \<open>prompt\<close>: the keys are the old ones without \<open>original_name\<close>
  and with \<open>name\<close>, and the new mapping is in the settings file.
\<close>

theorem edit_prompt_profile_spec:
  "let r = edit_prompt_profile name prompt original_name s;
       ok = fst (fst r); msg = snd (fst r); s' = snd r
   in if strip name = [] \<or>
         (name \<noteq> original_name \<and> name \<in> set (fst (prompt_profile_names s)))
      then \<not> ok \<and> msg \<noteq> [] \<and> msg \<in> {name_empty_msg, name_in_use_msg} \<and>
           profiles s' = profiles s \<and> objects s' = objects s \<and>
           user_settings s' = user_settings s \<and> settings_file s' = settings_file s \<and>
           dropdown_window s' = dropdown_window s
      else ok \<and> msg = [] \<and>
           profiles s' = dict_setitem name prompt (AList.delete original_name (profiles s)) \<and>
           map_of (profiles s') =
             ((map_of (profiles s))(original_name := None))(name \<mapsto> prompt) \<and>
           set (dict_keys (profiles s')) =
             insert name (set (dict_keys (profiles s)) - {original_name}) \<and>
           persisted s' = Some (profiles s')"
proof (cases "strip name = []")
  case True
  then show ?thesis by (simp add: edit_blank)
next
  case False
  show ?thesis
  proof (cases "name \<noteq> original_name \<and> name \<in> set (fst (prompt_profile_names s))")
    case True
    with False show ?thesis by (simp add: edit_in_use)
  next
    case ok: False
    then have "name \<notin> set (fst (prompt_profile_names s)) \<or> name = original_name" by blast
    from edit_ok [OF False this] False ok show ?thesis
      by (simp add: dict_setitem_def update_conv' delete_conv' keys_setitem [unfolded dict_setitem_def] keys_delete)
  qed
qed

theorem edit_prompt_profile_spec_witness:
  "profiles (snd (add_prompt_profile ''A'' ''p1'' new_manager)) = [(''A'', ''p1'')] \<and>
   fst (edit_prompt_profile ''B'' ''p2'' ''A'' (snd (add_prompt_profile ''A'' ''p1'' new_manager)))
     = (True, []) \<and>
   profiles (snd (edit_prompt_profile ''B'' ''p2'' ''A''
       (snd (add_prompt_profile ''A'' ''p1'' new_manager)))) = [(''B'', ''p2'')] \<and>
   fst (fst (edit_prompt_profile ''   '' ''p2'' ''A''
       (snd (add_prompt_profile ''A'' ''p1'' new_manager)))) = False \<and>
   fst (fst (edit_prompt_profile ''(None)'' ''p2'' ''A''
       (snd (add_prompt_profile ''A'' ''p1'' new_manager)))) = False"
proof -
  have a: "profiles (snd (add_prompt_profile ''A'' ''p1'' new_manager)) = [(''A'', ''p1'')]"
    by (simp add: add_ok names_set dict_keys_def dict_setitem_def unsaved_prompt_profile_name_def)
  have b: "fst (edit_prompt_profile ''B'' ''p2'' ''A'' (snd (add_prompt_profile ''A'' ''p1'' new_manager)))
     = (True, []) \<and>
    profiles (snd (edit_prompt_profile ''B'' ''p2'' ''A''
       (snd (add_prompt_profile ''A'' ''p1'' new_manager)))) = [(''B'', ''p2'')]"
    using edit_prompt_profile_spec [of "''B''" "''p2''" "''A''" "snd (add_prompt_profile ''A'' ''p1'' new_manager)"]
    by (simp add: Let_def a names_set dict_keys_def dict_setitem_def unsaved_prompt_profile_name_def
        prod_eq_iff)
  have c: "fst (fst (edit_prompt_profile ''   '' ''p2'' ''A''
       (snd (add_prompt_profile ''A'' ''p1'' new_manager)))) = False"
    using edit_prompt_profile_spec [of "''   ''" "''p2''" "''A''" "snd (add_prompt_profile ''A'' ''p1'' new_manager)"]
    by (simp add: Let_def)
  have d: "fst (fst (edit_prompt_profile ''(None)'' ''p2'' ''A''
       (snd (add_prompt_profile ''A'' ''p1'' new_manager)))) = False"
    using edit_prompt_profile_spec [of "''(None)''" "''p2''" "''A''" "snd (add_prompt_profile ''A'' ''p1'' new_manager)"]
    by (simp add: Let_def names_set unsaved_prompt_profile_name_def)
  show ?thesis using a b c d by simp
qed

text \<open>
  C4. The list of profile names is always the unsaved profile name followed by the saved
  names in ascending order, and it is free of duplicates after every sequence of
  operations in which no edit keeps the unsaved profile's name as the name of the profile
  (lemmas \<open>store_ok_run\<close> and \<open>listing_of_ok_store\<close>). That one edit is accepted, since the
  name has not changed, and stores the unsaved profile's name as a saved profile: the
  list then holds it twice. Here on the manager of a first run.
\<close>

theorem edit_stores_unsaved_profile_name:
  "fst (edit_prompt_profile ''(None)'' ''p'' ''(None)'' new_manager) = (True, []) \<and>
   profiles (snd (edit_prompt_profile ''(None)'' ''p'' ''(None)'' new_manager))
     = [(unsaved_prompt_profile_name, ''p'')] \<and>
   fst (prompt_profile_names (snd (edit_prompt_profile ''(None)'' ''p'' ''(None)'' new_manager)))
     = [''(None)'', ''(None)'']"
proof -
  have "edit_prompt_profile ''(None)'' ''p'' ''(None)'' new_manager =
      ((True, []), save_profile ''(None)'' ''p'' (Some ''(None)'')
         (new_manager\<lparr>saved_prompt_profiles_field := current_ref new_manager\<rparr>))"
    by (rule edit_ok) simp_all
  then show ?thesis
    by (simp add: names dict_setitem_def dict_keys_def unsaved_prompt_profile_name_def)
qed

text \<open>
  C5. With a dropdown bound to the manager, every successful add, edit or delete pushes
  the new list of profile names to it. An edit of the profile that is selected in the
  dropdown selects the new name and queues a selection event carrying it; a delete of the
  selected profile selects the unsaved profile name and queues a selection event carrying
  that. An add, and an edit or a delete of a profile that is not the selected one, leave
  the selection as it was and queue no event.
\<close>

theorem dropdown_sync:
  assumes "dropdown_window s = Some w" and "dropdown_key s = Some k"
  shows
    "(fst (fst (add_prompt_profile n p s)) \<longrightarrow>
        (let s' = snd (add_prompt_profile n p s)
         in \<exists>w'. dropdown_window s' = Some w' \<and>
              combo_values (element w') = fst (prompt_profile_names s') \<and>
              combo_value (element w') = combo_value (element w) \<and>
              written_events w' = written_events w)) \<and>
     (fst (fst (edit_prompt_profile n p orig s)) \<longrightarrow>
        (let s' = snd (edit_prompt_profile n p orig s)
         in \<exists>w'. dropdown_window s' = Some w' \<and>
              combo_values (element w') = fst (prompt_profile_names s') \<and>
              (if orig = combo_value (element w)
               then combo_value (element w') = n \<and>
                    written_events w' = written_events w @ [(k, n)]
               else combo_value (element w') = combo_value (element w) \<and>
                    written_events w' = written_events w))) \<and>
     (fst (delete_prompt_profile n s) = Inr () \<longrightarrow>
        (let s' = snd (delete_prompt_profile n s)
         in \<exists>w'. dropdown_window s' = Some w' \<and>
              combo_values (element w') = fst (prompt_profile_names s') \<and>
              (if n = combo_value (element w)
               then combo_value (element w') = unsaved_prompt_profile_name \<and>
                    written_events w' = written_events w @ [(k, unsaved_prompt_profile_name)]
               else combo_value (element w') = combo_value (element w) \<and>
                    written_events w' = written_events w)))"
proof (intro conjI impI)
  let ?s0 = "s\<lparr>saved_prompt_profiles_field := current_ref s\<rparr>"
  have bound: "dropdown_window ?s0 = Some w" "dropdown_key ?s0 = Some k"
    using assms by simp_all
  {
    assume ok: "fst (fst (add_prompt_profile n p s))"
    have b: "strip n \<noteq> []" using ok by (auto simp: add_blank)
    have "n \<notin> set (fst (prompt_profile_names s))"
      using ok b by (auto simp: add_in_use)
    from add_ok [OF b this]
    have "snd (add_prompt_profile n p s) = save_profile n p None ?s0" by simp
    then show "let s' = snd (add_prompt_profile n p s)
         in \<exists>w'. dropdown_window s' = Some w' \<and>
              combo_values (element w') = fst (prompt_profile_names s') \<and>
              combo_value (element w') = combo_value (element w) \<and>
              written_events w' = written_events w"
      by (simp add: Let_def dropdown_save_profile_bound [OF bound] refreshed_def combo_update_def)
  next
    assume ok: "fst (fst (edit_prompt_profile n p orig s))"
    have b: "strip n \<noteq> []" using ok by (auto simp: edit_blank)
    have "n \<notin> set (fst (prompt_profile_names s)) \<or> n = orig"
    proof (rule ccontr)
      assume "\<not> (n \<notin> set (fst (prompt_profile_names s)) \<or> n = orig)"
      then have "n \<in> set (fst (prompt_profile_names s))" "n \<noteq> orig" by simp_all
      from edit_in_use [OF b this] ok show False by simp
    qed
    from edit_ok [OF b this]
    have "snd (edit_prompt_profile n p orig s) = save_profile n p (Some orig) ?s0" by simp
    then show "let s' = snd (edit_prompt_profile n p orig s)
         in \<exists>w'. dropdown_window s' = Some w' \<and>
              combo_values (element w') = fst (prompt_profile_names s') \<and>
              (if orig = combo_value (element w)
               then combo_value (element w') = n \<and>
                    written_events w' = written_events w @ [(k, n)]
               else combo_value (element w') = combo_value (element w) \<and>
                    written_events w' = written_events w)"
      by (simp add: Let_def dropdown_save_profile_bound [OF bound] refreshed_def combo_update_def
          write_event_value_def)
  next
    assume ok: "fst (delete_prompt_profile n s) = Inr ()"
    have n: "n \<in> set (dict_keys (profiles s))"
    proof (rule ccontr)
      assume "n \<notin> set (dict_keys (profiles s))"
      from delete_absent [OF this] ok show False by simp
    qed
    show "let s' = snd (delete_prompt_profile n s)
         in \<exists>w'. dropdown_window s' = Some w' \<and>
              combo_values (element w') = fst (prompt_profile_names s') \<and>
              (if n = combo_value (element w)
               then combo_value (element w') = unsaved_prompt_profile_name \<and>
                    written_events w' = written_events w @ [(k, unsaved_prompt_profile_name)]
               else combo_value (element w') = combo_value (element w) \<and>
                    written_events w' = written_events w)"
      by (simp add: Let_def dropdown_delete_bound [OF assms n] refreshed_def combo_update_def
          write_event_value_def)
  }
qed

theorem dropdown_sync_witness:
  "(\<exists>w'. dropdown_window (snd (add_prompt_profile ''A'' ''p1'' bound_manager)) = Some w' \<and>
      combo_values (element w') = [''(None)'', ''A''] \<and>
      combo_value (element w') = ''(None)'' \<and> written_events w' = []) \<and>
   (\<exists>w'. dropdown_window (snd (edit_prompt_profile ''B'' ''p2'' ''A''
        (choose_option ''A'' (snd (add_prompt_profile ''A'' ''p1'' bound_manager))))) = Some w' \<and>
      combo_values (element w') = [''(None)'', ''B''] \<and>
      combo_value (element w') = ''B'' \<and>
      written_events w' = [(PROMPT_PROFILE_DROPDOWN, ''B'')]) \<and>
   (\<exists>w'. dropdown_window (snd (edit_prompt_profile ''B'' ''p2'' ''A''
        (snd (add_prompt_profile ''A'' ''p1'' bound_manager)))) = Some w' \<and>
      combo_values (element w') = [''(None)'', ''B''] \<and>
      combo_value (element w') = ''(None)'' \<and> written_events w' = []) \<and>
   (\<exists>w'. dropdown_window (snd (delete_prompt_profile ''A''
        (choose_option ''A'' (snd (add_prompt_profile ''A'' ''p1'' bound_manager))))) = Some w' \<and>
      combo_values (element w') = [''(None)''] \<and>
      combo_value (element w') = ''(None)'' \<and>
      written_events w' = [(PROMPT_PROFILE_DROPDOWN, ''(None)'')])"
proof -
  define s1 where "s1 = snd (add_prompt_profile ''A'' ''p1'' bound_manager)"
  have ok1: "add_prompt_profile ''A'' ''p1'' bound_manager =
      ((True, []), save_profile ''A'' ''p1'' None
         (bound_manager\<lparr>saved_prompt_profiles_field := current_ref bound_manager\<rparr>))"
    by (rule add_ok) (simp_all add: names_set dict_keys_def unsaved_prompt_profile_name_def)
  have p1: "profiles s1 = [(''A'', ''p1'')]" "dropdown_key s1 = Some PROMPT_PROFILE_DROPDOWN"
    by (simp_all add: s1_def ok1 dict_setitem_def)
  have n1: "fst (prompt_profile_names s1) = [''(None)'', ''A'']"
    by (simp add: names p1 dict_keys_def unsaved_prompt_profile_name_def)
  have f1: "fst (fst (add_prompt_profile ''A'' ''p1'' bound_manager))"
    by (simp add: ok1)
  have a: "\<exists>w'. dropdown_window s1 = Some w' \<and>
      combo_values (element w') = [''(None)'', ''A''] \<and>
      combo_value (element w') = ''(None)'' \<and> written_events w' = []"
    using dropdown_sync [of bound_manager main_window PROMPT_PROFILE_DROPDOWN "''A''" "''p1''" "''A''",
        THEN conjunct1] f1
    by (simp add: Let_def s1_def [symmetric] n1 main_window_def unsaved_prompt_profile_name_def
        del: names_sync)
  then obtain w1 where w1: "dropdown_window s1 = Some w1"
      "combo_value (element w1) = ''(None)''" "written_events w1 = []"
    by blast
  define sA where "sA = choose_option ''A'' s1"
  have wA: "dropdown_window sA = Some (w1\<lparr>element := (element w1)\<lparr>combo_value := ''A''\<rparr>\<rparr>)"
    "dropdown_key sA = Some PROMPT_PROFILE_DROPDOWN"
    using w1 p1 by (simp_all add: sA_def)
  have pA: "profiles sA = [(''A'', ''p1'')]"
    by (simp add: sA_def p1)
  have okeA: "edit_prompt_profile ''B'' ''p2'' ''A'' sA =
      ((True, []), save_profile ''B'' ''p2'' (Some ''A'')
         (sA\<lparr>saved_prompt_profiles_field := current_ref sA\<rparr>))"
    by (rule edit_ok) (simp_all add: names_set pA dict_keys_def unsaved_prompt_profile_name_def)
  have oke1: "edit_prompt_profile ''B'' ''p2'' ''A'' s1 =
      ((True, []), save_profile ''B'' ''p2'' (Some ''A'')
         (s1\<lparr>saved_prompt_profiles_field := current_ref s1\<rparr>))"
    by (rule edit_ok) (simp_all add: names_set p1 dict_keys_def unsaved_prompt_profile_name_def)
  have fA: "fst (fst (edit_prompt_profile ''B'' ''p2'' ''A'' sA))"
    and f1e: "fst (fst (edit_prompt_profile ''B'' ''p2'' ''A'' s1))"
    by (simp_all add: okeA oke1)
  have nA: "fst (prompt_profile_names (snd (edit_prompt_profile ''B'' ''p2'' ''A'' sA))) = [''(None)'', ''B'']"
    and n1e: "fst (prompt_profile_names (snd (edit_prompt_profile ''B'' ''p2'' ''A'' s1))) = [''(None)'', ''B'']"
    by (simp_all add: names okeA oke1 pA p1 dict_keys_def dict_setitem_def unsaved_prompt_profile_name_def)
  have b: "\<exists>w'. dropdown_window (snd (edit_prompt_profile ''B'' ''p2'' ''A'' sA)) = Some w' \<and>
      combo_values (element w') = [''(None)'', ''B''] \<and>
      combo_value (element w') = ''B'' \<and>
      written_events w' = [(PROMPT_PROFILE_DROPDOWN, ''B'')]"
    using dropdown_sync [OF wA, of "''B''" "''p2''" "''A''", THEN conjunct2, THEN conjunct1] fA w1
    by (simp add: Let_def nA del: names_sync)
  have c: "\<exists>w'. dropdown_window (snd (edit_prompt_profile ''B'' ''p2'' ''A'' s1)) = Some w' \<and>
      combo_values (element w') = [''(None)'', ''B''] \<and>
      combo_value (element w') = ''(None)'' \<and> written_events w' = []"
    using dropdown_sync [OF w1(1) p1(2), of "''B''" "''p2''" "''A''", THEN conjunct2, THEN conjunct1]
      f1e w1
    by (simp add: Let_def n1e del: names_sync)
  have inA: "''A'' \<in> set (dict_keys (profiles sA))"
    by (simp add: pA dict_keys_def)
  have okd: "fst (delete_prompt_profile ''A'' sA) = Inr ()"
    by (simp add: delete_present [OF inA])
  have nd: "fst (prompt_profile_names (snd (delete_prompt_profile ''A'' sA))) = [''(None)'']"
    by (simp add: names profiles_delete [OF inA] pA dict_keys_def unsaved_prompt_profile_name_def)
  have d: "\<exists>w'. dropdown_window (snd (delete_prompt_profile ''A'' sA)) = Some w' \<and>
      combo_values (element w') = [''(None)''] \<and>
      combo_value (element w') = ''(None)'' \<and>
      written_events w' = [(PROMPT_PROFILE_DROPDOWN, ''(None)'')]"
    using dropdown_sync [OF wA, of "''A''" "''p1''" "''A''", THEN conjunct2, THEN conjunct2] okd w1
    by (simp add: Let_def nd unsaved_prompt_profile_name_def del: names_sync)
  show ?thesis using a b c d unfolding s1_def sA_def by blast
qed

text \<open>
  C6. Every operation that changes the profile mapping writes the whole new mapping to
  the settings before it returns: after a successful \<open>add_prompt_profile\<close>, a successful
  \<open>edit_prompt_profile\<close> and a \<open>delete_prompt_profile\<close> of a stored name, the entry of the
  settings file under the manager's key is the mapping the manager now holds, and the
  settings in memory hold the manager's own dict object under that key.
\<close>

theorem mutations_are_persisted:
  "(fst (fst (add_prompt_profile n p s)) \<longrightarrow>
      (let s' = snd (add_prompt_profile n p s)
       in profiles s' = dict_setitem n p (profiles s) \<and>
          persisted s' = Some (profiles s') \<and>
          user_settings s' (saved_prompts_settings_key s') = Some (current_ref s'))) \<and>
   (fst (fst (edit_prompt_profile n p orig s)) \<longrightarrow>
      (let s' = snd (edit_prompt_profile n p orig s)
       in profiles s' = dict_setitem n p (AList.delete orig (profiles s)) \<and>
          persisted s' = Some (profiles s') \<and>
          user_settings s' (saved_prompts_settings_key s') = Some (current_ref s'))) \<and>
   (n \<in> set (dict_keys (profiles s)) \<longrightarrow>
      (let s' = snd (delete_prompt_profile n s)
       in fst (delete_prompt_profile n s) = Inr () \<and>
          profiles s' = AList.delete n (profiles s) \<and>
          persisted s' = Some (profiles s') \<and>
          user_settings s' (saved_prompts_settings_key s') = Some (current_ref s')))"
proof (intro conjI impI)
  assume ok: "fst (fst (add_prompt_profile n p s))"
  have "strip n \<noteq> []" using ok by (auto simp: add_blank)
  moreover have "n \<notin> set (fst (prompt_profile_names s))"
    using ok \<open>strip n \<noteq> []\<close> by (auto simp: add_in_use)
  ultimately show "let s' = snd (add_prompt_profile n p s)
       in profiles s' = dict_setitem n p (profiles s) \<and>
          persisted s' = Some (profiles s') \<and>
          user_settings s' (saved_prompts_settings_key s') = Some (current_ref s')"
    by (simp add: add_ok Let_def)
next
  assume ok: "fst (fst (edit_prompt_profile n p orig s))"
  have b: "strip n \<noteq> []" using ok by (auto simp: edit_blank)
  have "n \<notin> set (fst (prompt_profile_names s)) \<or> n = orig"
  proof (rule ccontr)
    assume "\<not> (n \<notin> set (fst (prompt_profile_names s)) \<or> n = orig)"
    then have "n \<in> set (fst (prompt_profile_names s))" "n \<noteq> orig" by simp_all
    from edit_in_use [OF b this] ok show False by simp
  qed
  from edit_ok [OF b this]
  show "let s' = snd (edit_prompt_profile n p orig s)
       in profiles s' = dict_setitem n p (AList.delete orig (profiles s)) \<and>
          persisted s' = Some (profiles s') \<and>
          user_settings s' (saved_prompts_settings_key s') = Some (current_ref s')"
    by (simp add: Let_def)
next
  assume n: "n \<in> set (dict_keys (profiles s))"
  have "user_settings (snd (delete_prompt_profile n s))
          (saved_prompts_settings_key (snd (delete_prompt_profile n s))) =
        Some (current_ref (snd (delete_prompt_profile n s)))"
    by (simp add: delete_present [OF n] Let_def split: option.splits)
  then show "let s' = snd (delete_prompt_profile n s)
       in fst (delete_prompt_profile n s) = Inr () \<and>
          profiles s' = AList.delete n (profiles s) \<and>
          persisted s' = Some (profiles s') \<and>
          user_settings s' (saved_prompts_settings_key s') = Some (current_ref s')"
    by (simp add: Let_def profiles_delete [OF n] persisted_delete [OF n]) (simp add: delete_present [OF n])
qed

theorem mutations_are_persisted_witness:
  "persisted new_manager = None \<and>
   persisted (snd (add_prompt_profile ''A'' ''p1'' new_manager)) = Some [(''A'', ''p1'')] \<and>
   persisted (snd (edit_prompt_profile ''B'' ''p2'' ''A''
       (snd (add_prompt_profile ''A'' ''p1'' new_manager)))) = Some [(''B'', ''p2'')] \<and>
   persisted (snd (delete_prompt_profile ''A''
       (snd (add_prompt_profile ''A'' ''p1'' new_manager)))) = Some []"
proof -
  define s1 where "s1 = snd (add_prompt_profile ''A'' ''p1'' new_manager)"
  have ok1: "fst (fst (add_prompt_profile ''A'' ''p1'' new_manager))"
    by (simp add: add_ok names_set dict_keys_def unsaved_prompt_profile_name_def)
  have a: "profiles s1 = [(''A'', ''p1'')] \<and> persisted s1 = Some [(''A'', ''p1'')]"
    using mutations_are_persisted [of "''A''" "''p1''" new_manager] ok1
    by (simp add: Let_def s1_def dict_setitem_def)
  have ok2: "fst (fst (edit_prompt_profile ''B'' ''p2'' ''A'' s1))"
    by (simp add: edit_ok names_set dict_keys_def unsaved_prompt_profile_name_def a)
  have b: "persisted (snd (edit_prompt_profile ''B'' ''p2'' ''A'' s1)) = Some [(''B'', ''p2'')]"
    using mutations_are_persisted [of "''B''" "''p2''" s1 "''A''"] ok2
    by (simp add: Let_def a dict_setitem_def)
  have c: "persisted (snd (delete_prompt_profile ''A'' s1)) = Some []"
    using mutations_are_persisted [of "''A''" "''p1''" s1]
    by (simp add: Let_def a dict_keys_def)
  show ?thesis using a b c by (simp add: s1_def [symmetric] persisted_def)
qed

text \<open>
  C7. A job started with a list of \<open>n\<close> files has \<open>total_count = n\<close> and
  \<open>completed_count = 0\<close>. Every progress notification adds exactly one to
  \<open>completed_count\<close>, so that it is at most \<open>total_count\<close> during the \<open>n\<close> notifications and
  equal to it after them. The success notification then finishes the job: with a clock
  that does not run backwards the call returns the time since the start, which is not
  negative, and the job is \<open>Done\<close> with the worker released. A further \<open>finish\<close>, whatever
  its arguments, returns no time and changes nothing.
\<close>

theorem job_counts_and_finish:
  assumes "t0 \<le> t1"
  shows "let j0 = start fs t0 j;
             j1 = progress (length fs) j0;
             r = on_TRANSCRIBE_SUCCESS t1 j1;
             j2 = snd r
         in total_count j0 = length fs \<and> completed_count j0 = 0 \<and> state j0 = Running \<and>
            (\<forall>k. completed_count (on_TRANSCRIBE_PROGRESS (progress k j0)) =
                    completed_count (progress k j0) + 1) \<and>
            (\<forall>k \<le> length fs. completed_count (progress k j0) = k \<and>
                    completed_count (progress k j0) \<le> total_count (progress k j0)) \<and>
            completed_count j1 = length fs \<and> completed_count j1 = total_count j1 \<and>
            fst r = Some (t1 - t0) \<and> 0 \<le> t1 - t0 \<and>
            state j2 = Done \<and> \<not> worker_held j2 \<and> completed_count j2 = total_count j2 \<and>
            finish success t2 j2 = (None, j2)"
  using assms
  by (simp add: Let_def start_def on_TRANSCRIBE_SUCCESS_def finish_def on_TRANSCRIBE_PROGRESS_def)

theorem job_counts_and_finish_witness:
  "completed_count (start [''f1'', ''f2'', ''f3''] 10 idle_job) = 0 \<and>
   total_count (start [''f1'', ''f2'', ''f3''] 10 idle_job) = 3 \<and>
   completed_count (progress 3 (start [''f1'', ''f2'', ''f3''] 10 idle_job)) = 3 \<and>
   fst (on_TRANSCRIBE_SUCCESS (25 / 2) (progress 3 (start [''f1'', ''f2'', ''f3''] 10 idle_job)))
     = Some (5 / 2) \<and>
   state (snd (on_TRANSCRIBE_SUCCESS (25 / 2)
      (progress 3 (start [''f1'', ''f2'', ''f3''] 10 idle_job)))) = Done \<and>
   fst (finish True 20 (snd (on_TRANSCRIBE_SUCCESS (25 / 2)
      (progress 3 (start [''f1'', ''f2'', ''f3''] 10 idle_job))))) = None"
proof -
  have h: "(10::real) \<le> 25 / 2" by simp
  show ?thesis
    using job_counts_and_finish [OF h, of "[''f1'', ''f2'', ''f3'']" idle_job True 20]
    by (simp add: Let_def numeral_3_eq_3)
qed

text \<open>
  C8. The pass of the event loop that rejects a scaling input runs no reconcile. The
  branch tracks its message popup and ends the pass with \<open>continue\<close>, before
  \<open>modal_window_manager.update()\<close> at the end of the body: after the pass the popup is
  tracked and open but not modal, as the reconcile would have made it. Here for an input
  that is no decimal and for the input 5, which is out of range, on an application with
  no other window tracked; the popup is window 7.
\<close>

theorem rejected_scaling_skips_reconcile:
  "loop_pass (start_GUI_branches others accepted None 7) tail
     (Some 0, Some APPLY_GLOBAL_SCALING) idle_app =
       Next (idle_app\<lparr>windows := track 7 no_windows\<rparr>) \<and>
   loop_pass (start_GUI_branches others accepted (Some 5) 7) tail
     (Some 0, Some APPLY_GLOBAL_SCALING) idle_app =
       Next (idle_app\<lparr>windows := track 7 no_windows\<rparr>) \<and>
   still_open (track 7 no_windows) = [7] \<and>
   modal_windows (track 7 no_windows) = {} \<and>
   modal_windows (reconcile (track 7 no_windows)) = {7}"
  by (simp add: loop_pass_def start_GUI_branches_def on_APPLY_GLOBAL_SCALING_def
      popup_tracked_scaling_invalid_def apply_button_is_not_closing MAX_SCALING_def
      track_def no_windows_def reconcile_def still_open_def)

text \<open>
  C10. Profile names are stored as they are given, with no whitespace normalisation. A
  name whose stripped form is non-empty and that is not itself in the list of profile
  names is accepted by \<open>add_prompt_profile\<close> and becomes a key, character for character.
  So two different names that are both new, such as \<open>A\<close> and \<open>A\<close> between two spaces, are
  both accepted, one after the other, and are two profiles of the store, each with its
  own prompt.
\<close>

theorem names_stored_verbatim:
  assumes "strip n1 \<noteq> []" and "strip n2 \<noteq> []" and "n1 \<noteq> n2"
    and "n1 \<notin> set (fst (prompt_profile_names s))"
    and "n2 \<notin> set (fst (prompt_profile_names s))"
  shows "let r1 = add_prompt_profile n1 p1 s; s1 = snd r1;
             r2 = add_prompt_profile n2 p2 s1; s2 = snd r2
         in fst r1 = (True, []) \<and> fst r2 = (True, []) \<and>
            set (dict_keys (profiles s1)) = insert n1 (set (dict_keys (profiles s))) \<and>
            map_of (profiles s1) n1 = Some p1 \<and>
            set (dict_keys (profiles s2)) = insert n2 (insert n1 (set (dict_keys (profiles s)))) \<and>
            map_of (profiles s2) n1 = Some p1 \<and> map_of (profiles s2) n2 = Some p2"
proof -
  have r1: "add_prompt_profile n1 p1 s =
      ((True, []), save_profile n1 p1 None (s\<lparr>saved_prompt_profiles_field := current_ref s\<rparr>))"
    using assms by (simp add: add_ok)
  define s1 where "s1 = snd (add_prompt_profile n1 p1 s)"
  have p1: "profiles s1 = dict_setitem n1 p1 (profiles s)"
    by (simp add: s1_def r1)
  have "n2 \<notin> set (fst (prompt_profile_names s1))"
    using assms by (simp add: names_set p1 keys_setitem)
  then have r2: "add_prompt_profile n2 p2 s1 =
      ((True, []), save_profile n2 p2 None (s1\<lparr>saved_prompt_profiles_field := current_ref s1\<rparr>))"
    using assms by (simp add: add_ok)
  have p2: "profiles (snd (add_prompt_profile n2 p2 s1)) = dict_setitem n2 p2 (profiles s1)"
    by (simp add: r2)
  show ?thesis
    unfolding Let_def s1_def [symmetric]
    using assms(3) by (simp add: r1 r2 p1 p2 keys_setitem) (simp add: dict_setitem_def update_conv')
qed

theorem names_stored_verbatim_witness:
  "strip ''A'' = strip '' A '' \<and> ''A'' \<noteq> '' A '' \<and>
   fst (add_prompt_profile ''A'' ''p1'' new_manager) = (True, []) \<and>
   fst (add_prompt_profile '' A '' ''p2'' (snd (add_prompt_profile ''A'' ''p1'' new_manager)))
     = (True, []) \<and>
   map_of (profiles (snd (add_prompt_profile '' A '' ''p2''
      (snd (add_prompt_profile ''A'' ''p1'' new_manager))))) ''A'' = Some ''p1'' \<and>
   map_of (profiles (snd (add_prompt_profile '' A '' ''p2''
      (snd (add_prompt_profile ''A'' ''p1'' new_manager))))) '' A '' = Some ''p2''"
proof -
  have h: "strip ''A'' \<noteq> []" "strip '' A '' \<noteq> []" "''A'' \<noteq> '' A ''"
    "''A'' \<notin> set (fst (prompt_profile_names new_manager))"
    "'' A '' \<notin> set (fst (prompt_profile_names new_manager))"
    by (simp_all add: names_set dict_keys_def unsaved_prompt_profile_name_def)
  show ?thesis
    using names_stored_verbatim [OF h, of "''p1''" "''p2''"]
    by (simp add: Let_def)
qed

end
